theory Spec2Isabelle
  imports Main
begin

section \<open>Errors\<close>

text \<open>
  The program's functions return Go pairs \<open>(value, error)\<close>.  The model keeps the pair:
  the second component is \<open>None\<close> for \<open>nil\<close>.  The error values are the ones the
  program creates or passes through: \<open>*os.PathError\<close> from \<open>os.Open\<close> and
  \<open>os.Create\<close>, the decoding errors of \<open>encoding/json\<close>, the errors of
  \<open>net/http\<close>, the messages built with \<open>fmt.Errorf\<close>, \<open>*strconv.NumError\<close>
  from \<open>strconv.ParseFloat\<close>, and an I/O error of the CSV writer.
\<close>

datatype num_err = ErrSyntax | ErrRange

datatype error =
    PathError string string
  | JSONSyntaxError
  | UnmarshalTypeError string
  | RequestError
  | TransportError
  | Errorf string
  | NumError string string num_err
  | WriteError

section \<open>strconv.ParseFloat and the verb \<open>%.f\<close>\<close>

text \<open>
  \<open>formatThreshold\<close> calls \<open>strconv.ParseFloat(value, 64)\<close> and
  \<open>fmt.Sprintf("%.f", f)\<close>.  Both are modelled with exact integer arithmetic.  A
  binary64 value is its sign, its integral significand \<open>m < 2^53\<close> and its exponent
  \<open>e\<close> (the value is \<open>m * 2^e\<close>), or an infinity, or NaN.
\<close>

datatype float64 = Finite bool int int | Inf bool | NaN

definition ord :: "char \<Rightarrow> int" where
  "ord c = of_char c"

text \<open>\<open>lower(c)\<close> of package strconv is \<open>c | ('x' - 'X')\<close>: it sets bit 5.\<close>

definition lower :: "char \<Rightarrow> char" where
  "lower c = (if (ord c div 32) mod 2 = 0 then char_of (ord c + 32) else c)"

definition is_digit :: "char \<Rightarrow> bool" where
  "is_digit c = (ord (CHR ''0'') \<le> ord c \<and> ord c \<le> ord (CHR ''9''))"

definition is_hex_letter :: "char \<Rightarrow> bool" where
  "is_hex_letter c = (ord (CHR ''a'') \<le> ord (lower c) \<and> ord (lower c) \<le> ord (CHR ''f''))"

text \<open>
  \<open>commonPrefixLenIgnoreCase(s, prefix)\<close>: the prefix is lower case, and only the
  letters \<open>A..Z\<close> of \<open>s\<close> are folded.
\<close>

fun commonPrefixLenIgnoreCase :: "string \<Rightarrow> string \<Rightarrow> nat" where
  "commonPrefixLenIgnoreCase (c # s) (p # prefix) =
     (let c' = (if ord (CHR ''A'') \<le> ord c \<and> ord c \<le> ord (CHR ''Z'')
                then char_of (ord c + 32) else c)
      in if c' \<noteq> p then 0 else Suc (commonPrefixLenIgnoreCase s prefix))"
| "commonPrefixLenIgnoreCase _ _ = 0"

text \<open>
  \<open>special(s)\<close> recognises the optionally signed infinities and the unsigned NaN.  It
  returns the value and the number of bytes consumed.
\<close>

definition special_inf :: "bool \<Rightarrow> nat \<Rightarrow> string \<Rightarrow> (float64 \<times> nat) option" where
  "special_inf neg nsign s =
     (let n0 = commonPrefixLenIgnoreCase s ''infinity'';
          n = (if 3 < n0 \<and> n0 < 8 then 3 else n0)
      in if n = 3 \<or> n = 8 then Some (Inf neg, nsign + n) else None)"

definition special :: "string \<Rightarrow> (float64 \<times> nat) option" where
  "special s =
     (case s of
        [] \<Rightarrow> None
      | c # r \<Rightarrow>
          if c = CHR ''+'' then special_inf False 1 r
          else if c = CHR ''-'' then special_inf True 1 r
          else if c = CHR ''i'' \<or> c = CHR ''I'' then special_inf False 0 s
          else if c = CHR ''n'' \<or> c = CHR ''N'' then
            (if commonPrefixLenIgnoreCase s ''nan'' = 3 then Some (NaN, 3) else None)
          else None)"

text \<open>
  \<open>underscoreOK(s)\<close>: an underscore may only stand between digits, or between a base
  prefix and a digit.
\<close>

datatype saw = SawStart | SawDigit | SawUnderscore | SawOther

fun underscoreLoop :: "bool \<Rightarrow> saw \<Rightarrow> string \<Rightarrow> bool" where
  "underscoreLoop hex sw [] = (sw \<noteq> SawUnderscore)"
| "underscoreLoop hex sw (c # s) =
     (if is_digit c \<or> (hex \<and> is_hex_letter c) then underscoreLoop hex SawDigit s
      else if c = CHR ''_'' then
        (if sw \<noteq> SawDigit then False else underscoreLoop hex SawUnderscore s)
      else if sw = SawUnderscore then False
      else underscoreLoop hex SawOther s)"

definition underscoreOK :: "string \<Rightarrow> bool" where
  "underscoreOK s0 =
     (let s = (case s0 of [] \<Rightarrow> [] | c # r \<Rightarrow> if c = CHR ''-'' \<or> c = CHR ''+'' then r else s0)
      in case s of
           c0 # c1 # r \<Rightarrow>
             if c0 = CHR ''0'' \<and>
                (lower c1 = CHR ''b'' \<or> lower c1 = CHR ''o'' \<or> lower c1 = CHR ''x'')
             then underscoreLoop (lower c1 = CHR ''x'') SawDigit r
             else underscoreLoop False SawStart s
         | _ \<Rightarrow> underscoreLoop False SawStart s)"

text \<open>
  The digit loop of \<open>readFloat\<close>.  Go keeps the first 19 digits in a \<open>uint64\<close> with a
  flag for the truncated rest and re-reads the text on the slow path; both paths return
  the correctly rounded value of the whole digit string, so the model keeps the whole
  significand \<open>mant\<close> and the number \<open>fracd\<close> of digits after the point.
\<close>

record scan =
  mant :: int
  fracd :: nat
  sawdot :: bool
  sawdigits :: bool
  underscores :: bool

definition scan0 :: scan where
  "scan0 = \<lparr>mant = 0, fracd = 0, sawdot = False, sawdigits = False, underscores = False\<rparr>"

definition push_digit :: "int \<Rightarrow> int \<Rightarrow> scan \<Rightarrow> scan" where
  "push_digit base d st =
     st\<lparr>mant := mant st * base + d,
        fracd := (if sawdot st then Suc (fracd st) else fracd st),
        sawdigits := True\<rparr>"

fun digitsLoop :: "int \<Rightarrow> string \<Rightarrow> scan \<Rightarrow> scan \<times> string" where
  "digitsLoop base [] st = (st, [])"
| "digitsLoop base (c # s) st =
     (if c = CHR ''_'' then digitsLoop base s (st\<lparr>underscores := True\<rparr>)
      else if c = CHR ''.'' then
        (if sawdot st then (st, c # s) else digitsLoop base s (st\<lparr>sawdot := True\<rparr>))
      else if is_digit c then
        digitsLoop base s (push_digit base (ord c - ord (CHR ''0'')) st)
      else if base = 16 \<and> is_hex_letter c then
        digitsLoop base s (push_digit base (ord (lower c) - ord (CHR ''a'') + 10) st)
      else (st, c # s))"

text \<open>The exponent loop: digits and underscores; the exponent saturates past 10000.\<close>

fun expLoop :: "string \<Rightarrow> int \<Rightarrow> bool \<Rightarrow> int \<times> bool \<times> string" where
  "expLoop [] e u = (e, u, [])"
| "expLoop (c # s) e u =
     (if c = CHR ''_'' then expLoop s e True
      else if is_digit c then
        expLoop s (if e < 10000 then e * 10 + (ord c - ord (CHR ''0'')) else e) u
      else (e, u, c # s))"

text \<open>
  \<open>readFloat(s)\<close>: \<open>None\<close> when the text is not a number; otherwise the sign, whether
  the number is hexadecimal, the significand, the exponent of the base (ten, or two for
  a hexadecimal number) and the unread rest of the text.
\<close>

definition readExponent :: "bool \<Rightarrow> scan \<Rightarrow> string \<Rightarrow> (int \<times> bool \<times> string) option" where
  "readExponent hex st s =
     (case s of
        [] \<Rightarrow> if hex then None else Some (0, underscores st, [])
      | c # r \<Rightarrow>
          if lower c = (if hex then CHR ''p'' else CHR ''e'') then
            (case r of
               [] \<Rightarrow> None
             | c1 # r1 \<Rightarrow>
                 let esign = (if c1 = CHR ''-'' then - 1 else 1 :: int);
                     r2 = (if c1 = CHR ''+'' \<or> c1 = CHR ''-'' then r1 else r)
                 in (case r2 of
                       [] \<Rightarrow> None
                     | c2 # _ \<Rightarrow>
                         if \<not> is_digit c2 then None
                         else (case expLoop r2 0 (underscores st) of
                                 (e, u, rest) \<Rightarrow> Some (e * esign, u, rest))))
          else if hex then None
          else Some (0, underscores st, s))"

definition readFloat :: "string \<Rightarrow> (bool \<times> bool \<times> int \<times> int \<times> string) option" where
  "readFloat s =
     (case s of
        [] \<Rightarrow> None
      | c # r \<Rightarrow>
          let neg = (c = CHR ''-'');
              s1 = (if c = CHR ''+'' \<or> c = CHR ''-'' then r else s);
              hex = (case s1 of
                       c0 # c1 # _ # _ \<Rightarrow> c0 = CHR ''0'' \<and> lower c1 = CHR ''x''
                     | _ \<Rightarrow> False);
              base = (if hex then 16 else 10 :: int);
              s2 = (if hex then drop 2 s1 else s1)
          in (case digitsLoop base s2 scan0 of
                (st, s3) \<Rightarrow>
                  if \<not> sawdigits st then None
                  else (case readExponent hex st s3 of
                          None \<Rightarrow> None
                        | Some (e, u, rest) \<Rightarrow>
                            if u \<and> \<not> underscoreOK (take (length s - length rest) s) then None
                            else Some (neg, hex, mant st,
                                       e - int (if hex then 4 * fracd st else fracd st),
                                       rest))))"

text \<open>
  Rounding to binary64, to nearest with ties to even, as \<open>ParseFloat\<close> documents.
  The value is the fraction \<open>p / q\<close>.  The flag of the result says that the rounded
  value does not fit (Go returns an infinity and \<open>ErrRange\<close>).
\<close>

definition round_half_even :: "int \<Rightarrow> int \<Rightarrow> int" where
  "round_half_even p q =
     (let d = p div q; r = p mod q
      in if 2 * r < q then d
         else if q < 2 * r then d + 1
         else if even d then d else d + 1)"

function bitlen :: "int \<Rightarrow> int" where
  "bitlen n = (if n \<le> 0 then 0 else 1 + bitlen (n div 2))"
  by pat_completeness auto
termination
  by (relation "measure nat") auto

definition floorlog2 :: "int \<Rightarrow> int \<Rightarrow> int" where
  "floorlog2 p q =
     (let k = bitlen p - bitlen q
      in if 0 \<le> k then (if q * 2 ^ nat k \<le> p then k else k - 1)
         else (if q \<le> p * 2 ^ nat (- k) then k else k - 1))"

definition round_float64 :: "bool \<Rightarrow> int \<Rightarrow> int \<Rightarrow> float64 \<times> bool" where
  "round_float64 neg p q =
     (if p = 0 then (Finite neg 0 0, False)
      else
        let e = max (floorlog2 p q - 52) (- 1074);
            m = (if 0 \<le> e then round_half_even p (q * 2 ^ nat e)
                 else round_half_even (p * 2 ^ nat (- e)) q);
            e' = (if m = 2 ^ 53 then e + 1 else e);
            m' = (if m = 2 ^ 53 then 2 ^ 52 else m)
        in if 971 < e' then (Inf neg, True) else (Finite neg m' e', False))"

definition parseFloatPrefix :: "string \<Rightarrow> float64 \<times> nat \<times> error option" where
  "parseFloatPrefix s =
     (case special s of
        Some (f, n) \<Rightarrow> (f, n, None)
      | None \<Rightarrow>
          (case readFloat s of
             None \<Rightarrow> (Finite False 0 0, 0, Some (NumError ''ParseFloat'' s ErrSyntax))
           | Some (neg, hex, m, x, rest) \<Rightarrow>
               let b = (if hex then 2 else 10 :: int);
                   r = (if 0 \<le> x then round_float64 neg (m * b ^ nat x) 1
                        else round_float64 neg m (b ^ nat (- x)))
               in (fst r, length s - length rest,
                   if snd r then Some (NumError ''ParseFloat'' s ErrRange) else None)))"

text \<open>
  \<open>ParseFloat\<close> itself: text left over after the number is a syntax error, unless a
  syntax error was found already.  The byte count of a failed \<open>readFloat\<close> is not
  modelled; it only reaches this test together with its syntax error.
\<close>

definition ParseFloat :: "string \<Rightarrow> float64 \<times> error option" where
  "ParseFloat s =
     (case parseFloatPrefix s of
        (f, n, err) \<Rightarrow>
          if n \<noteq> length s \<and> (case err of None \<Rightarrow> True
                                | Some e \<Rightarrow> e \<noteq> NumError ''ParseFloat'' s ErrSyntax)
          then (Finite False 0 0, Some (NumError ''ParseFloat'' s ErrSyntax))
          else (f, err))"

text \<open>
  \<open>fmt.Sprintf("%.f", f)\<close>: precision zero.  A finite value is rounded to an integer,
  ties to even, from its exact binary value, and keeps the sign of the float (so a
  negative zero prints \<open>-0\<close>); the others print \<open>NaN\<close>, \<open>+Inf\<close> and \<open>-Inf\<close>.
\<close>

function decimal :: "int \<Rightarrow> string" where
  "decimal n =
     (if n < 10 then [char_of (48 + n)]
      else decimal (n div 10) @ [char_of (48 + n mod 10)])"
  by pat_completeness auto
termination
  by (relation "measure nat") auto

declare decimal.simps [simp del]
declare bitlen.simps [simp del]

definition Sprintf_f0 :: "float64 \<Rightarrow> string" where
  "Sprintf_f0 f =
     (case f of
        NaN \<Rightarrow> ''NaN''
      | Inf neg \<Rightarrow> (if neg then ''-Inf'' else ''+Inf'')
      | Finite neg m e \<Rightarrow>
          (if neg then ''-'' else '''') @
          decimal (if 0 \<le> e then m * 2 ^ nat e else round_half_even m (2 ^ nat (- e))))"

section \<open>formatThreshold\<close>

definition formatThreshold :: "string \<Rightarrow> string \<times> error option" where
  "formatThreshold v =
     (case ParseFloat v of
        (f, Some err) \<Rightarrow> ('''', Some err)
      | (f, None) \<Rightarrow> (Sprintf_f0 f, None))"

section \<open>Decoded JSON\<close>

text \<open>
  The tree that \<open>encoding/json\<close> delivers.  An object holds its members in document
  order; a Go map built from it keeps, for a repeated key, the last member.
\<close>

datatype json =
    JNull
  | JBool bool
  | JNumber float64
  | JString string
  | JArray "json list"
  | JObject "(string \<times> json) list"

text \<open>What a decoder finds at the start of a stream: no well-formed value, or a value.\<close>

datatype json_stream = Malformed | Document json

definition lookup :: "(string \<times> json) list \<Rightarrow> string \<Rightarrow> json option" where
  "lookup kvs k = map_of (rev kvs) k"

text \<open>The checked type assertions \<open>v.(T)\<close> on a map entry; a missing entry is nil.\<close>

definition as_string :: "json option \<Rightarrow> string option" where
  "as_string v = (case v of Some (JString s) \<Rightarrow> Some s | _ \<Rightarrow> None)"

definition as_bool :: "json option \<Rightarrow> bool option" where
  "as_bool v = (case v of Some (JBool b) \<Rightarrow> Some b | _ \<Rightarrow> None)"

definition as_array :: "json option \<Rightarrow> json list option" where
  "as_array v = (case v of Some (JArray xs) \<Rightarrow> Some xs | _ \<Rightarrow> None)"

definition as_object :: "json option \<Rightarrow> (string \<times> json) list option" where
  "as_object v = (case v of Some (JObject kvs) \<Rightarrow> Some kvs | _ \<Rightarrow> None)"

text \<open>The word \<open>UnmarshalTypeError\<close> uses for the JSON value it could not store.\<close>

definition json_kind :: "json \<Rightarrow> string" where
  "json_kind v =
     (case v of
        JNull \<Rightarrow> ''null''
      | JBool _ \<Rightarrow> ''bool''
      | JNumber _ \<Rightarrow> ''number''
      | JString _ \<Rightarrow> ''string''
      | JArray _ \<Rightarrow> ''array''
      | JObject _ \<Rightarrow> ''object'')"

section \<open>The program's data\<close>

record Config =
  APIKey :: string
  AlertPolicyID :: string

record Term =
  Duration :: string
  Operator :: string
  Threshold :: string
  TimeFunction :: string
  Priority :: string

record NRQLCondition =
  Name :: string
  Terms :: "Term list"
  Enabled :: bool

section \<open>The world of one run\<close>

text \<open>
  What the program reads and writes: the files it can open for reading (with what a
  JSON decoder finds in them), the answer of the HTTP round trip for a URL and an API
  key, the CSV files (a file is the sequence of records given to \<open>csv.Writer.Write\<close>),
  the paths \<open>os.Create\<close> succeeds on, the number of further write operations the device
  accepts (\<open>None\<close>: any number), and the lines printed so far.
\<close>

datatype http_outcome = NewRequestFails | DoFails | Response json_stream

datatype printed =
    ErrorLoadingConfiguration error
  | ErrorFetching error
  | ConditionsFor string
  | PrintName string
  | PrintTermsLabel
  | PrintDuration string
  | PrintOperator string
  | PrintThreshold string
  | PrintTimeFunction string
  | PrintPriority string
  | PrintBlank
  | ErrorSaving error
  | SavedSuccessfully

record world =
  readable :: "string \<Rightarrow> json_stream option"
  http_get :: "string \<Rightarrow> string \<Rightarrow> http_outcome"
  files :: "string \<Rightarrow> string list list option"
  creatable :: "string \<Rightarrow> bool"
  io_budget :: "nat option"
  console :: "printed list"

section \<open>loadConfig\<close>

text \<open>
  \<open>Decoder.Decode\<close> into \<open>*Config\<close>.  A member is matched to a field by its exact
  key, else by its folded key; the folding of names (Go's \<open>foldName\<close>, which needs the
  Unicode case tables) is the parameter \<open>foldName\<close>.  A string is stored, null is skipped,
  any other value is recorded as the first \<open>UnmarshalTypeError\<close> while decoding goes
  on; members of other keys are skipped.
\<close>

datatype config_field = FieldAPIKey | FieldAlertPolicyID

definition field_for :: "(string \<Rightarrow> string) \<Rightarrow> string \<Rightarrow> config_field option" where
  "field_for foldName k =
     (if k = ''apiKey'' then Some FieldAPIKey
      else if k = ''alertPolicyID'' then Some FieldAlertPolicyID
      else if foldName k = foldName ''apiKey'' then Some FieldAPIKey
      else if foldName k = foldName ''alertPolicyID'' then Some FieldAlertPolicyID
      else None)"

definition set_field :: "config_field \<Rightarrow> string \<Rightarrow> Config \<Rightarrow> Config" where
  "set_field f s c = (case f of FieldAPIKey \<Rightarrow> c\<lparr>APIKey := s\<rparr>
                               | FieldAlertPolicyID \<Rightarrow> c\<lparr>AlertPolicyID := s\<rparr>)"

fun objectLoop ::
  "(string \<Rightarrow> string) \<Rightarrow> (string \<times> json) list \<Rightarrow> Config \<Rightarrow> error option \<Rightarrow> Config \<times> error option"
where
  "objectLoop foldName [] c saved = (c, saved)"
| "objectLoop foldName ((k, v) # kvs) c saved =
     (case field_for foldName k of
        None \<Rightarrow> objectLoop foldName kvs c saved
      | Some f \<Rightarrow>
          (case v of
             JString s \<Rightarrow> objectLoop foldName kvs (set_field f s c) saved
           | JNull \<Rightarrow> objectLoop foldName kvs c saved
           | _ \<Rightarrow> objectLoop foldName kvs c
                   (case saved of None \<Rightarrow> Some (UnmarshalTypeError (json_kind v))
                                | Some e \<Rightarrow> Some e)))"

definition decodeConfig :: "(string \<Rightarrow> string) \<Rightarrow> json_stream \<Rightarrow> Config \<times> error option" where
  "decodeConfig foldName st =
     (let config = \<lparr>APIKey = [], AlertPolicyID = []\<rparr>
      in case st of
           Malformed \<Rightarrow> (config, Some JSONSyntaxError)
         | Document JNull \<Rightarrow> (config, None)
         | Document (JObject kvs) \<Rightarrow> objectLoop foldName kvs config None
         | Document v \<Rightarrow> (config, Some (UnmarshalTypeError (json_kind v))))"

definition loadConfig ::
  "(string \<Rightarrow> string) \<Rightarrow> world \<Rightarrow> string \<Rightarrow> Config option \<times> error option" where
  "loadConfig foldName w filename =
     (case readable w filename of
        None \<Rightarrow> (None, Some (PathError ''open'' filename))
      | Some st \<Rightarrow>
          (case decodeConfig foldName st of
             (config, Some err) \<Rightarrow> (None, Some err)
           | (config, None) \<Rightarrow> (Some config, None)))"

section \<open>fetchNRQLConditions\<close>

definition request_url :: "string \<Rightarrow> string" where
  "request_url policyID =
     ''https://api.newrelic.com/v2/alerts_nrql_conditions.json?policy_id='' @ policyID"

text \<open>\<open>Decode(&data)\<close> with \<open>data\<close> a nil \<open>map[string]interface{}\<close>: null leaves it nil.\<close>

definition decodeMap :: "json_stream \<Rightarrow> (string \<times> json) list \<times> error option" where
  "decodeMap st =
     (case st of
        Malformed \<Rightarrow> ([], Some JSONSyntaxError)
      | Document JNull \<Rightarrow> ([], None)
      | Document (JObject kvs) \<Rightarrow> (kvs, None)
      | Document v \<Rightarrow> ([], Some (UnmarshalTypeError (json_kind v))))"

text \<open>The inner loop over \<open>termsData\<close>; \<open>terms\<close> is the slice built so far.\<close>

fun termsLoop :: "json list \<Rightarrow> Term list \<Rightarrow> Term list \<times> error option" where
  "termsLoop [] terms = (terms, None)"
| "termsLoop (termData # rest) terms =
     (case as_object (Some termData) of
        None \<Rightarrow> ([], Some (Errorf ''term has incorrect type''))
      | Some term \<Rightarrow>
     (case as_string (lookup term ''duration'') of
        None \<Rightarrow> ([], Some (Errorf ''duration field is not a string''))
      | Some duration \<Rightarrow>
     (case as_string (lookup term ''operator'') of
        None \<Rightarrow> ([], Some (Errorf ''operator field is not a string''))
      | Some operator \<Rightarrow>
     (case as_string (lookup term ''threshold'') of
        None \<Rightarrow> ([], Some (Errorf ''threshold field is not a string''))
      | Some thresholdValue \<Rightarrow>
     (case formatThreshold thresholdValue of
        (_, Some err) \<Rightarrow> ([], Some err)
      | (threshold, None) \<Rightarrow>
     (case as_string (lookup term ''time_function'') of
        None \<Rightarrow> ([], Some (Errorf ''time_function field is not a string''))
      | Some timeFunction \<Rightarrow>
     (case as_string (lookup term ''priority'') of
        None \<Rightarrow> ([], Some (Errorf ''priority field is not a string''))
      | Some priority \<Rightarrow>
          termsLoop rest
            (terms @ [\<lparr>Duration = duration, Operator = operator, Threshold = threshold,
                       TimeFunction = timeFunction, Priority = priority\<rparr>]))))))))"

text \<open>The outer loop over \<open>conditions\<close>.\<close>

fun conditionsLoop ::
  "json list \<Rightarrow> NRQLCondition list \<Rightarrow> NRQLCondition list \<times> error option" where
  "conditionsLoop [] nrqlConditions = (nrqlConditions, None)"
| "conditionsLoop (c # rest) nrqlConditions =
     (case as_object (Some c) of
        None \<Rightarrow> ([], Some (Errorf ''nrql condition has incorrect type''))
      | Some condition \<Rightarrow>
     (case as_string (lookup condition ''name'') of
        None \<Rightarrow> ([], Some (Errorf ''name field is not a string''))
      | Some name \<Rightarrow>
     (case as_bool (lookup condition ''enabled'') of
        None \<Rightarrow> ([], Some (Errorf ''enabled field is not a boolean''))
      | Some enabled \<Rightarrow>
     (case as_array (lookup condition ''terms'') of
        None \<Rightarrow> ([], Some (Errorf ''terms field not found or has incorrect type''))
      | Some termsData \<Rightarrow>
     (case termsLoop termsData [] of
        (_, Some err) \<Rightarrow> ([], Some err)
      | (terms, None) \<Rightarrow>
          conditionsLoop rest
            (nrqlConditions @ [\<lparr>Name = name, Terms = terms, Enabled = enabled\<rparr>]))))))"

definition fetchNRQLConditions ::
  "world \<Rightarrow> string \<Rightarrow> string \<Rightarrow> NRQLCondition list \<times> error option" where
  "fetchNRQLConditions w apiKey policyID =
     (case http_get w (request_url policyID) apiKey of
        NewRequestFails \<Rightarrow> ([], Some RequestError)
      | DoFails \<Rightarrow> ([], Some TransportError)
      | Response body \<Rightarrow>
          (case decodeMap body of
             (_, Some err) \<Rightarrow> ([], Some err)
           | (data, None) \<Rightarrow>
               (case as_array (lookup data ''nrql_conditions'') of
                  None \<Rightarrow>
                    ([], Some (Errorf ''nrql_conditions field not found or has incorrect type''))
                | Some conditions \<Rightarrow> conditionsLoop conditions [])))"

section \<open>SaveNRQLConditionsAsCSV\<close>

text \<open>
  \<open>os.Create\<close> truncates an existing file.  A write operation (a record, or the final
  flush) fails once the device accepts no more; a record that is accepted is appended to
  the file.  Go buffers the records, so there a failure can surface at a later
  operation; a run without any failure has written every record in both.
\<close>

definition os_Create :: "world \<Rightarrow> string \<Rightarrow> world \<times> error option" where
  "os_Create w filename =
     (if creatable w filename then (w\<lparr>files := (files w)(filename \<mapsto> [])\<rparr>, None)
      else (w, Some (PathError ''open'' filename)))"

definition spend :: "world \<Rightarrow> world option" where
  "spend w =
     (case io_budget w of
        None \<Rightarrow> Some w
      | Some n \<Rightarrow> if n = 0 then None else Some (w\<lparr>io_budget := Some (n - 1)\<rparr>))"

definition csv_Write :: "world \<Rightarrow> string \<Rightarrow> string list \<Rightarrow> world \<times> error option" where
  "csv_Write w filename rec =
     (case spend w of
        None \<Rightarrow> (w, Some WriteError)
      | Some w' \<Rightarrow>
          (w'\<lparr>files := (files w')(filename \<mapsto>
                  (case files w' filename of None \<Rightarrow> [] | Some rs \<Rightarrow> rs) @ [rec])\<rparr>,
           None))"

definition csv_Flush :: "world \<Rightarrow> world \<times> error option" where
  "csv_Flush w = (case spend w of None \<Rightarrow> (w, Some WriteError) | Some w' \<Rightarrow> (w', None))"

definition Sprintf_t :: "bool \<Rightarrow> string" where
  "Sprintf_t b = (if b then ''true'' else ''false'')"

fun writeTerms :: "world \<Rightarrow> string \<Rightarrow> NRQLCondition \<Rightarrow> Term list \<Rightarrow> world \<times> error option" where
  "writeTerms w filename condition [] = (w, None)"
| "writeTerms w filename condition (term # rest) =
     (case csv_Write w filename
             [Name condition, Duration term, Operator term, Threshold term,
              TimeFunction term, Priority term, Sprintf_t (Enabled condition)] of
        (w', Some err) \<Rightarrow> (w', Some err)
      | (w', None) \<Rightarrow> writeTerms w' filename condition rest)"

fun writeConditions :: "world \<Rightarrow> string \<Rightarrow> NRQLCondition list \<Rightarrow> world \<times> error option" where
  "writeConditions w filename [] = (w, None)"
| "writeConditions w filename (condition # rest) =
     (case writeTerms w filename condition (Terms condition) of
        (w', Some err) \<Rightarrow> (w', Some err)
      | (w', None) \<Rightarrow> writeConditions w' filename rest)"

definition SaveNRQLConditionsAsCSV ::
  "world \<Rightarrow> string \<Rightarrow> NRQLCondition list \<Rightarrow> world \<times> error option" where
  "SaveNRQLConditionsAsCSV w filename nrqlConditions =
     (case os_Create w filename of
        (w1, Some err) \<Rightarrow> (w1, Some err)
      | (w1, None) \<Rightarrow>
     (case csv_Write w1 filename
             [''Condition Name'', ''Duration'', ''Operator'', ''Threshold'',
              ''Time Function'', ''Priority'', ''Active''] of
        (w2, Some err) \<Rightarrow> (w2, Some err)
      | (w2, None) \<Rightarrow>
     (case writeConditions w2 filename nrqlConditions of
        (w3, Some err) \<Rightarrow> (w3, Some err)
      | (w3, None) \<Rightarrow> csv_Flush w3)))"

section \<open>main\<close>

text \<open>
  The run: what is printed is kept as a list of the print statements executed, and the
  files are those of the world returned.  \<open>loadConfig\<close> returns a nil configuration
  only together with an error, so the second case below is never taken.
\<close>

definition println :: "world \<Rightarrow> printed list \<Rightarrow> world" where
  "println w ls = w\<lparr>console := console w @ ls\<rparr>"

definition printTerm :: "Term \<Rightarrow> printed list" where
  "printTerm term =
     [PrintDuration (Duration term), PrintOperator (Operator term),
      PrintThreshold (Threshold term), PrintTimeFunction (TimeFunction term),
      PrintPriority (Priority term)]"

definition printCondition :: "NRQLCondition \<Rightarrow> printed list" where
  "printCondition condition =
     [PrintName (Name condition), PrintTermsLabel] @
     concat (map printTerm (Terms condition)) @ [PrintBlank]"

definition main :: "(string \<Rightarrow> string) \<Rightarrow> world \<Rightarrow> world" where
  "main foldName w =
     (case loadConfig foldName w ''config.json'' of
        (_, Some err) \<Rightarrow> println w [ErrorLoadingConfiguration err]
      | (None, None) \<Rightarrow> w
      | (Some config, None) \<Rightarrow>
     (case fetchNRQLConditions w (APIKey config) (AlertPolicyID config) of
        (_, Some err) \<Rightarrow> println w [ErrorFetching err]
      | (nrqlConditions, None) \<Rightarrow>
          let w1 = println w (ConditionsFor (AlertPolicyID config) #
                            concat (map printCondition nrqlConditions))
          in (case SaveNRQLConditionsAsCSV w1 (AlertPolicyID config @ ''.csv'') nrqlConditions of
                (w2, Some err) \<Rightarrow> println w2 [ErrorSaving err]
              | (w2, None) \<Rightarrow> println w2 [SavedSuccessfully])))"

section \<open>What the specification says, as definitions\<close>

subsection \<open>The CSV file\<close>

definition content :: "world \<Rightarrow> string \<Rightarrow> string list list" where
  "content w filename = (case files w filename of None \<Rightarrow> [] | Some rs \<Rightarrow> rs)"

definition csv_header :: "string list" where
  "csv_header = [''Condition Name'', ''Duration'', ''Operator'', ''Threshold'',
                 ''Time Function'', ''Priority'', ''Active'']"

text \<open>The row of a term: its five fields between the name and the flag of its condition.\<close>

definition term_row :: "NRQLCondition \<Rightarrow> Term \<Rightarrow> string list" where
  "term_row c t = [Name c, Duration t, Operator t, Threshold t, TimeFunction t, Priority t,
                   if Enabled c then ''true'' else ''false'']"

text \<open>One row per term per condition, conditions in order, terms in order within each.\<close>

definition flat_rows :: "NRQLCondition list \<Rightarrow> string list list" where
  "flat_rows cs = concat (map (\<lambda>c. map (term_row c) (Terms c)) cs)"

definition total_terms :: "NRQLCondition list \<Rightarrow> nat" where
  "total_terms cs = sum_list (map (\<lambda>c. length (Terms c)) cs)"

subsection \<open>Violations of the response shape\<close>

text \<open>
  A violation is an attribute that is missing or of the wrong type, a list element that
  is not an object, or a threshold text that \<open>formatThreshold\<close> rejects (with the error
  it returned).  \<open>violations\<close> lists every violation of a condition list in document
  order, without stopping at the first.
\<close>

datatype violation =
    MissingOrMistyped string
  | NotAnObject string
  | BadThreshold error

definition string_check :: "string \<Rightarrow> (string \<times> json) list \<Rightarrow> violation list" where
  "string_check key obj =
     (case lookup obj key of Some (JString _) \<Rightarrow> [] | _ \<Rightarrow> [MissingOrMistyped key])"

definition bool_check :: "string \<Rightarrow> (string \<times> json) list \<Rightarrow> violation list" where
  "bool_check key obj =
     (case lookup obj key of Some (JBool _) \<Rightarrow> [] | _ \<Rightarrow> [MissingOrMistyped key])"

definition threshold_check :: "(string \<times> json) list \<Rightarrow> violation list" where
  "threshold_check obj =
     (case lookup obj ''threshold'' of
        Some (JString s) \<Rightarrow>
          (case snd (formatThreshold s) of None \<Rightarrow> [] | Some e \<Rightarrow> [BadThreshold e])
      | _ \<Rightarrow> [MissingOrMistyped ''threshold''])"

definition term_violations :: "json \<Rightarrow> violation list" where
  "term_violations t =
     (case t of
        JObject obj \<Rightarrow>
          string_check ''duration'' obj @ string_check ''operator'' obj @
          threshold_check obj @
          string_check ''time_function'' obj @ string_check ''priority'' obj
      | _ \<Rightarrow> [NotAnObject ''term''])"

definition condition_violations :: "json \<Rightarrow> violation list" where
  "condition_violations c =
     (case c of
        JObject obj \<Rightarrow>
          string_check ''name'' obj @ bool_check ''enabled'' obj @
          (case lookup obj ''terms'' of
             Some (JArray ts) \<Rightarrow> concat (map term_violations ts)
           | _ \<Rightarrow> [MissingOrMistyped ''terms''])
      | _ \<Rightarrow> [NotAnObject ''nrql condition''])"


definition first_of :: "'a list \<Rightarrow> 'a option" where
  "first_of xs = (case xs of [] \<Rightarrow> None | x # _ \<Rightarrow> Some x)"

text \<open>The error that reports a violation.\<close>

definition report :: "violation \<Rightarrow> error" where
  "report v =
     (case v of
        MissingOrMistyped key \<Rightarrow>
          Errorf (key @ (if key = ''terms'' then '' field not found or has incorrect type''
                         else if key = ''enabled'' then '' field is not a boolean''
                         else '' field is not a string''))
      | NotAnObject what \<Rightarrow> Errorf (what @ '' has incorrect type'')
      | BadThreshold e \<Rightarrow> e)"



subsection \<open>Decimal integers\<close>

definition is_decimal_integer :: "string \<Rightarrow> bool" where
  "is_decimal_integer s =
     (case s of
        [] \<Rightarrow> False
      | c # r \<Rightarrow> if c = CHR ''-'' then r \<noteq> [] \<and> list_all is_digit r
                 else list_all is_digit s)"

subsection \<open>What a configuration object gives to a field\<close>

definition is_string :: "json \<Rightarrow> bool" where
  "is_string v = (case v of JString _ \<Rightarrow> True | _ \<Rightarrow> False)"

text \<open>The strings that the members matched to a field hold, in document order.\<close>

definition strings_for ::
  "(string \<Rightarrow> string) \<Rightarrow> config_field \<Rightarrow> (string \<times> json) list \<Rightarrow> string list" where
  "strings_for foldName f kvs =
     concat (map (\<lambda>(k, v). case v of JString s \<Rightarrow> if field_for foldName k = Some f then [s] else []
                                  | _ \<Rightarrow> []) kvs)"

definition last_or_empty :: "string list \<Rightarrow> string" where
  "last_or_empty xs = (if xs = [] then [] else last xs)"

text \<open>The members matched to a field that hold neither a string nor null.\<close>

definition bad_members :: "(string \<Rightarrow> string) \<Rightarrow> (string \<times> json) list \<Rightarrow> json list" where
  "bad_members foldName kvs =
     map snd (filter (\<lambda>(k, v). field_for foldName k \<noteq> None \<and> \<not> is_string v \<and> v \<noteq> JNull) kvs)"

subsection \<open>Example inputs\<close>

definition example_world :: "json_stream option \<Rightarrow> http_outcome \<Rightarrow> world" where
  "example_world cfg resp =
     \<lparr>readable = (\<lambda>f. if f = ''config.json'' then cfg else None),
      http_get = (\<lambda>u k. resp),
      files = (\<lambda>f. if f = ''42.csv'' then Some [[''stale''], [''stale''], [''stale'']] else None),
      creatable = (\<lambda>f. True),
      io_budget = None,
      console = []\<rparr>"

definition example_term :: "string \<Rightarrow> json" where
  "example_term threshold =
     JObject [(''duration'', JString ''5''), (''operator'', JString ''above''),
              (''threshold'', JString threshold), (''time_function'', JString ''all''),
              (''priority'', JString ''critical'')]"

definition example_condition :: "string \<Rightarrow> json list \<Rightarrow> json" where
  "example_condition name ts =
     JObject [(''name'', JString name), (''enabled'', JBool True), (''terms'', JArray ts)]"

definition example_config :: json where
  "example_config = JObject [(''apiKey'', JString ''key''), (''alertPolicyID'', JString ''42'')]"

section \<open>The CSV writer\<close>

lemma csv_Write_ok:
  assumes "csv_Write w fn r = (w', None)"
  shows "files w' = (files w)(fn \<mapsto> content w fn @ [r])"
  using assms
  by (auto simp: csv_Write_def spend_def content_def split: option.splits if_splits)

lemma writeTerms_ok:
  "writeTerms w fn c ts = (w', None) \<Longrightarrow> files w fn = Some rs \<Longrightarrow>
   files w' = (files w)(fn \<mapsto> rs @ map (term_row c) ts)"
proof (induction ts arbitrary: w rs)
  case Nil
  then show ?case by auto
next
  case (Cons t ts)
  from Cons.prems(1) obtain w1 where
    w1: "csv_Write w fn (term_row c t) = (w1, None)" and
    rest: "writeTerms w1 fn c ts = (w', None)"
    by (auto simp: term_row_def Sprintf_t_def split: prod.splits option.splits)
  have f1: "files w1 = (files w)(fn \<mapsto> rs @ [term_row c t])"
    using csv_Write_ok [OF w1] Cons.prems(2) by (simp add: content_def)
  then have "files w1 fn = Some (rs @ [term_row c t])" by simp
  from Cons.IH [OF rest this] f1 show ?case by (auto simp: fun_eq_iff)
qed

lemma writeConditions_ok:
  "writeConditions w fn cs = (w', None) \<Longrightarrow> files w fn = Some rs \<Longrightarrow>
   files w' = (files w)(fn \<mapsto> rs @ flat_rows cs)"
proof (induction cs arbitrary: w rs)
  case Nil
  then show ?case by (auto simp: flat_rows_def)
next
  case (Cons c cs)
  from Cons.prems(1) obtain w1 where
    w1: "writeTerms w fn c (Terms c) = (w1, None)" and
    rest: "writeConditions w1 fn cs = (w', None)"
    by (auto split: prod.splits option.splits)
  have f1: "files w1 = (files w)(fn \<mapsto> rs @ map (term_row c) (Terms c))"
    using writeTerms_ok [OF w1 Cons.prems(2)] .
  then have "files w1 fn = Some (rs @ map (term_row c) (Terms c))" by simp
  from Cons.IH [OF rest this] f1 show ?case by (auto simp: fun_eq_iff flat_rows_def)
qed

lemma csv_Flush_ok: "csv_Flush w = (w', None) \<Longrightarrow> files w' = files w"
  by (auto simp: csv_Flush_def spend_def split: option.splits if_splits)

lemma Save_ok:
  assumes "SaveNRQLConditionsAsCSV w fn cs = (w', None)"
  shows "files w' = (files w)(fn \<mapsto> csv_header # flat_rows cs)"
proof -
  from assms obtain w1 w2 w3 where
    c: "os_Create w fn = (w1, None)" and
    h: "csv_Write w1 fn csv_header = (w2, None)" and
    b: "writeConditions w2 fn cs = (w3, None)" and
    f: "csv_Flush w3 = (w', None)"
    by (auto simp: SaveNRQLConditionsAsCSV_def csv_header_def split: prod.splits option.splits)
  from c have f1: "files w1 = (files w)(fn \<mapsto> [])"
    by (auto simp: os_Create_def split: if_splits)
  with csv_Write_ok [OF h] have f2: "files w2 = (files w)(fn \<mapsto> [csv_header])"
    by (simp add: content_def)
  then have "files w2 fn = Some [csv_header]" by simp
  from writeConditions_ok [OF b this] f2
  have "files w3 = (files w)(fn \<mapsto> csv_header # flat_rows cs)" by (auto simp: fun_eq_iff)
  with csv_Flush_ok [OF f] show ?thesis by simp
qed

lemma length_flat_rows: "length (flat_rows cs) = total_terms cs"
  by (induction cs) (auto simp: flat_rows_def total_terms_def)

lemmas save_defs =
  SaveNRQLConditionsAsCSV_def os_Create_def csv_Write_def csv_Flush_def spend_def
  Sprintf_t_def example_world_def

text \<open>
  C1.  When the list of conditions is written without an error, the file holds exactly
  one header row and one row per term: \<open>1 + \<Sum> T\<^sub>i\<close> rows.  With no condition at
  all it holds the header alone.
\<close>

theorem csv_row_count:
  assumes "SaveNRQLConditionsAsCSV w filename cs = (w', None)"
  shows "(\<exists>rows. files w' filename = Some rows \<and>
                 length rows = 1 + sum_list (map (\<lambda>c. length (Terms c)) cs)) \<and>
         (cs = [] \<longrightarrow> files w' filename = Some [csv_header])"
  using Save_ok [OF assms] length_flat_rows [of cs]
  by (auto simp: total_terms_def flat_rows_def)

theorem csv_row_count_witness:
  "snd (SaveNRQLConditionsAsCSV (example_world None DoFails) ''7.csv''
          [\<lparr>Name = ''cpu'',
            Terms = [\<lparr>Duration = ''5'', Operator = ''above'', Threshold = ''90'',
                      TimeFunction = ''all'', Priority = ''critical''\<rparr>,
                     \<lparr>Duration = ''5'', Operator = ''above'', Threshold = ''80'',
                      TimeFunction = ''all'', Priority = ''warning''\<rparr>],
            Enabled = True\<rparr>,
           \<lparr>Name = ''disk'', Terms = [], Enabled = False\<rparr>]) = None \<and>
   (\<exists>rows. files (fst (SaveNRQLConditionsAsCSV (example_world None DoFails) ''7.csv''
          [\<lparr>Name = ''cpu'',
            Terms = [\<lparr>Duration = ''5'', Operator = ''above'', Threshold = ''90'',
                      TimeFunction = ''all'', Priority = ''critical''\<rparr>,
                     \<lparr>Duration = ''5'', Operator = ''above'', Threshold = ''80'',
                      TimeFunction = ''all'', Priority = ''warning''\<rparr>],
            Enabled = True\<rparr>,
           \<lparr>Name = ''disk'', Terms = [], Enabled = False\<rparr>])) ''7.csv'' = Some rows \<and>
       length rows = 3)"
proof -
  let ?cs = "[\<lparr>Name = ''cpu'',
            Terms = [\<lparr>Duration = ''5'', Operator = ''above'', Threshold = ''90'',
                      TimeFunction = ''all'', Priority = ''critical''\<rparr>,
                     \<lparr>Duration = ''5'', Operator = ''above'', Threshold = ''80'',
                      TimeFunction = ''all'', Priority = ''warning''\<rparr>],
            Enabled = True\<rparr>,
           \<lparr>Name = ''disk'', Terms = [], Enabled = False\<rparr>]"
  let ?r = "SaveNRQLConditionsAsCSV (example_world None DoFails) ''7.csv'' ?cs"
  have ok: "snd ?r = None" by (simp add: save_defs)
  then have h: "?r = (fst ?r, None)" by (simp add: prod_eq_iff)
  from csv_row_count [OF h] ok show ?thesis by (auto simp: numeral_3_eq_3)
qed



text \<open>
  C9.  Whatever the file held before, a run that writes the list without an error
  leaves the header and the new rows in it and nothing else; the other files are as
  they were.
\<close>

theorem rerun_overwrites:
  assumes "SaveNRQLConditionsAsCSV (w\<lparr>files := (files w)(filename \<mapsto> old)\<rparr>) filename cs
           = (w', None)"
  shows "files w' = (files w)(filename \<mapsto> csv_header # flat_rows cs)"
  using Save_ok [OF assms] by (auto simp: fun_eq_iff)

theorem rerun_overwrites_witness:
  "snd (SaveNRQLConditionsAsCSV
          ((example_world None DoFails)
             \<lparr>files := (files (example_world None DoFails))
                 (''42.csv'' \<mapsto> [[''stale''], [''stale''], [''stale'']])\<rparr>)
          ''42.csv'' []) = None \<and>
   files (fst (SaveNRQLConditionsAsCSV
          ((example_world None DoFails)
             \<lparr>files := (files (example_world None DoFails))
                 (''42.csv'' \<mapsto> [[''stale''], [''stale''], [''stale'']])\<rparr>)
          ''42.csv'' [])) ''42.csv'' = Some [csv_header]"
proof -
  let ?w = "(example_world None DoFails)
             \<lparr>files := (files (example_world None DoFails))
                 (''42.csv'' \<mapsto> [[''stale''], [''stale''], [''stale'']])\<rparr>"
  let ?r = "SaveNRQLConditionsAsCSV ?w ''42.csv'' []"
  have ok: "snd ?r = None" by (simp add: save_defs)
  then have h: "?r = (fst ?r, None)" by (simp add: prod_eq_iff)
  from rerun_overwrites [OF h] ok show ?thesis by (simp add: flat_rows_def)
qed

section \<open>Thresholds\<close>

text \<open>
  C2.  \<open>formatThreshold\<close> turns \<open>7.4\<close> into \<open>7\<close> and \<open>7.5\<close> into \<open>8\<close>; for \<open>abc\<close> it
  returns the syntax error of \<open>ParseFloat\<close> and the empty string.
\<close>

theorem threshold_examples:
  "formatThreshold ''7.4'' = (''7'', None) \<and>
   formatThreshold ''7.5'' = (''8'', None) \<and>
   formatThreshold ''abc'' = ([], Some (NumError ''ParseFloat'' ''abc'' ErrSyntax))"
  by code_simp

text \<open>
  C7.  A threshold text \<open>NaN\<close> parses as a float, and the term fetched from it holds
  \<open>NaN\<close>, which is not a decimal integer.
\<close>

theorem threshold_nan:
  "conditionsLoop [example_condition ''cpu'' [example_term ''NaN'']] [] =
     ([\<lparr>Name = ''cpu'',
        Terms = [\<lparr>Duration = ''5'', Operator = ''above'', Threshold = ''NaN'',
                  TimeFunction = ''all'', Priority = ''critical''\<rparr>],
        Enabled = True\<rparr>], None) \<and>
   \<not> is_decimal_integer ''NaN''"
  by code_simp

subsection \<open>The thresholds that are decimal integers\<close>

lemma ord_char_of: "0 \<le> n \<Longrightarrow> n < 256 \<Longrightarrow> ord (char_of n) = n"
  by (simp add: ord_def)

lemma decimal_digits: "0 \<le> n \<Longrightarrow> decimal n \<noteq> [] \<and> list_all is_digit (decimal n)"
proof (induction n rule: decimal.induct)
  case (1 n)
  show ?case
  proof (cases "n < 10")
    case True
    with "1.prems" have "ord (char_of (48 + n)) = 48 + n" by (intro ord_char_of) auto
    with True "1.prems" show ?thesis
      by (subst (1 2) decimal.simps) (simp add: is_digit_def ord_def)
  next
    case False
    then have ih: "decimal (n div 10) \<noteq> [] \<and> list_all is_digit (decimal (n div 10))"
      using "1.IH" "1.prems" by simp
    have "0 \<le> n mod 10" "n mod 10 < 10" by simp_all
    then have "ord (char_of (48 + n mod 10)) = 48 + n mod 10" by (intro ord_char_of) auto
    with False ih \<open>0 \<le> n mod 10\<close> \<open>n mod 10 < 10\<close> show ?thesis
      by (subst (1 2) decimal.simps) (simp add: is_digit_def ord_def)
  qed
qed

lemma round_half_even_nonneg: "0 \<le> p \<Longrightarrow> 0 < q \<Longrightarrow> 0 \<le> round_half_even p q"
  by (simp add: round_half_even_def Let_def pos_imp_zdiv_nonneg_iff)

lemma digitsLoop_nonneg:
  "0 \<le> base \<Longrightarrow> 0 \<le> mant st \<Longrightarrow> digitsLoop base s st = (st', r) \<Longrightarrow> 0 \<le> mant st'"
proof (induction s arbitrary: st)
  case Nil
  then show ?case by simp
next
  case (Cons c s)
  note ih = Cons.IH [OF Cons.prems(1)]
  consider (us) "c = CHR ''_''"
    | (dot) "c \<noteq> CHR ''_''" "c = CHR ''.''"
    | (dig) "c \<noteq> CHR ''_''" "c \<noteq> CHR ''.''" "is_digit c"
    | (hex) "c \<noteq> CHR ''_''" "c \<noteq> CHR ''.''" "\<not> is_digit c" "base = 16 \<and> is_hex_letter c"
    | (stop) "c \<noteq> CHR ''_''" "c \<noteq> CHR ''.''" "\<not> is_digit c" "\<not> (base = 16 \<and> is_hex_letter c)"
    by blast
  then show ?case
  proof cases
    case us
    with Cons.prems(3) have "digitsLoop base s (st\<lparr>underscores := True\<rparr>) = (st', r)" by simp
    moreover have "0 \<le> mant (st\<lparr>underscores := True\<rparr>)" using Cons.prems(2) by simp
    ultimately show ?thesis using ih by blast
  next
    case dot
    show ?thesis
    proof (cases "sawdot st")
      case True
      with dot Cons.prems(2,3) show ?thesis by auto
    next
      case False
      with dot Cons.prems(3) have "digitsLoop base s (st\<lparr>sawdot := True\<rparr>) = (st', r)" by simp
      moreover have "0 \<le> mant (st\<lparr>sawdot := True\<rparr>)" using Cons.prems(2) by simp
      ultimately show ?thesis using ih by blast
    qed
  next
    case dig
    with Cons.prems(3)
    have "digitsLoop base s (push_digit base (ord c - ord (CHR ''0'')) st) = (st', r)" by simp
    moreover have "0 \<le> mant (push_digit base (ord c - ord (CHR ''0'')) st)"
      using Cons.prems(1,2) dig(3) by (simp add: push_digit_def is_digit_def)
    ultimately show ?thesis using ih by blast
  next
    case hex
    with Cons.prems(3)
    have "digitsLoop base s (push_digit base (ord (lower c) - ord (CHR ''a'') + 10) st) = (st', r)"
      by simp
    moreover have "0 \<le> mant (push_digit base (ord (lower c) - ord (CHR ''a'') + 10) st)"
      using Cons.prems(1,2) hex(4) by (simp add: push_digit_def is_hex_letter_def)
    ultimately show ?thesis using ih by blast
  next
    case stop
    with Cons.prems(2,3) show ?thesis by auto
  qed
qed

lemma readFloat_nonneg:
  assumes "readFloat s = Some (neg, hex, m, x, rest)"
  shows "0 \<le> m"
proof (cases s)
  case Nil
  with assms show ?thesis by (simp add: readFloat_def)
next
  case (Cons c r)
  define s1 where "s1 = (if c = CHR ''+'' \<or> c = CHR ''-'' then r else s)"
  define hx where "hx = (case s1 of c0 # c1 # _ # _ \<Rightarrow> c0 = CHR ''0'' \<and> lower c1 = CHR ''x''
                          | _ \<Rightarrow> False)"
  define base where "base = (if hx then 16 else 10 :: int)"
  define s2 where "s2 = (if hx then drop 2 s1 else s1)"
  obtain st s3 where dl: "digitsLoop base s2 scan0 = (st, s3)"
    by (cases "digitsLoop base s2 scan0")
  have "0 \<le> base" by (simp add: base_def)
  from digitsLoop_nonneg [OF this _ dl] have st: "0 \<le> mant st" by (simp add: scan0_def)
  have "readFloat s =
        (if \<not> sawdigits st then None
         else (case readExponent hx st s3 of
                 None \<Rightarrow> None
               | Some (e, u, rest) \<Rightarrow>
                   if u \<and> \<not> underscoreOK (take (length s - length rest) s) then None
                   else Some (c = CHR ''-'', hx, mant st,
                              e - int (if hx then 4 * fracd st else fracd st), rest)))"
    unfolding readFloat_def Cons list.case Let_def
    using dl unfolding s2_def base_def hx_def s1_def Cons by simp
  with assms st show ?thesis by (auto split: if_splits option.splits)
qed

lemma round_float64_nonneg:
  assumes "0 \<le> p" "0 < q" "round_float64 neg p q = (Finite n m e, ovf)"
  shows "0 \<le> m"
proof (cases "p = 0")
  case True
  with assms(3) show ?thesis by (simp add: round_float64_def)
next
  case False
  have "0 \<le> round_half_even p (q * 2 ^ k)" "0 \<le> round_half_even (p * 2 ^ k) q" for k
    using assms(1,2) by (simp_all add: round_half_even_nonneg)
  with False assms(3) show ?thesis
    by (auto simp: round_float64_def Let_def split: if_splits)
qed

lemma special_not_finite: "special s = Some (f, n) \<Longrightarrow> f = NaN \<or> (\<exists>b. f = Inf b)"
  by (auto simp: special_def special_inf_def Let_def split: list.splits if_splits)

lemma parseFloatPrefix_nonneg:
  assumes "parseFloatPrefix s = (Finite neg m e, n, None)"
  shows "0 \<le> m"
proof (cases "special s")
  case (Some fn)
  with assms special_not_finite [of s "fst fn" "snd fn"] show ?thesis
    by (cases fn) (auto simp: parseFloatPrefix_def)
next
  case None
  show ?thesis
  proof (cases "readFloat s")
    case n: None
    with None assms show ?thesis by (simp add: parseFloatPrefix_def)
  next
    case (Some r)
    obtain neg' hex m' x rest where r: "r = (neg', hex, m', x, rest)" by (cases r) auto
    from Some r have m': "0 \<le> m'" using readFloat_nonneg by blast
    let ?b = "if hex then 2 else 10 :: int"
    have b: "0 < ?b ^ k" for k by simp
    from m' have p: "0 \<le> m' * ?b ^ k" for k by simp
    have A: "0 \<le> m" if "fst (round_float64 neg' (m' * ?b ^ k) 1) = Finite neg m e" for k
    proof -
      from that have "round_float64 neg' (m' * ?b ^ k) 1 =
                      (Finite neg m e, snd (round_float64 neg' (m' * ?b ^ k) 1))"
        by (simp add: prod_eq_iff)
      from round_float64_nonneg [OF p _ this] show ?thesis by simp
    qed
    have B: "0 \<le> m" if "fst (round_float64 neg' m' (?b ^ k)) = Finite neg m e" for k
    proof -
      from that have "round_float64 neg' m' (?b ^ k) =
                      (Finite neg m e, snd (round_float64 neg' m' (?b ^ k)))"
        by (simp add: prod_eq_iff)
      from round_float64_nonneg [OF m' b this] show ?thesis .
    qed
    from assms None Some r
    have "fst (if 0 \<le> x then round_float64 neg' (m' * ?b ^ nat x) 1
               else round_float64 neg' m' (?b ^ nat (- x))) = Finite neg m e"
      by (simp add: parseFloatPrefix_def Let_def)
    then show ?thesis using A [of "nat x"] B [of "nat (- x)"] by (cases "0 \<le> x") simp_all
  qed
qed

lemma ParseFloat_nonneg: "ParseFloat s = (Finite neg m e, None) \<Longrightarrow> 0 \<le> m"
  using parseFloatPrefix_nonneg [of s neg m e]
  by (auto simp: ParseFloat_def split: prod.splits if_splits option.splits)

lemma digit_not_minus: "is_digit c \<Longrightarrow> c \<noteq> CHR ''-''"
  by (auto simp: is_digit_def ord_def)

lemma Sprintf_f0_finite:
  assumes "0 \<le> m"
  shows "is_decimal_integer (Sprintf_f0 (Finite neg m e))"
proof -
  let ?k = "if 0 \<le> e then m * 2 ^ nat e else round_half_even m (2 ^ nat (- e))"
  have "0 \<le> ?k" using assms by (simp add: round_half_even_nonneg)
  from decimal_digits [OF this] obtain c r where
    cr: "decimal ?k = c # r" and dg: "list_all is_digit (c # r)"
    by (cases "decimal ?k") auto
  then have "c \<noteq> CHR ''-''" using digit_not_minus by simp
  with cr dg show ?thesis
    by (cases neg) (simp_all add: Sprintf_f0_def is_decimal_integer_def)
qed

text \<open>
  Apart from NaN and the infinities, every threshold that \<open>formatThreshold\<close> returns is
  a decimal integer (with a sign for a negative float, negative zero included).
\<close>

lemma formatThreshold_integer_or_special:
  assumes "formatThreshold s = (t, None)"
  shows "is_decimal_integer t \<or> t = ''NaN'' \<or> t = ''+Inf'' \<or> t = ''-Inf''"
proof -
  obtain f where p: "ParseFloat s = (f, None)" and t: "t = Sprintf_f0 f"
    using assms by (auto simp: formatThreshold_def split: prod.splits option.splits)
  show ?thesis
  proof (cases f)
    case (Finite neg m e)
    with p have "0 \<le> m" using ParseFloat_nonneg by blast
    with t Finite show ?thesis using Sprintf_f0_finite by blast
  next
    case (Inf neg)
    with t show ?thesis by (simp add: Sprintf_f0_def)
  next
    case NaN
    with t show ?thesis by (simp add: Sprintf_f0_def)
  qed
qed

section \<open>The condition fetcher\<close>

lemma first_of_simps [simp]: "first_of [] = None" "first_of (x # xs) = Some x"
  by (simp_all add: first_of_def)

lemma string_check_eq:
  "string_check k obj =
     (case as_string (lookup obj k) of None \<Rightarrow> [MissingOrMistyped k] | Some _ \<Rightarrow> [])"
  by (simp add: string_check_def as_string_def split: option.splits json.splits)

lemma bool_check_eq:
  "bool_check k obj =
     (case as_bool (lookup obj k) of None \<Rightarrow> [MissingOrMistyped k] | Some _ \<Rightarrow> [])"
  by (simp add: bool_check_def as_bool_def split: option.splits json.splits)

lemma threshold_check_eq:
  "threshold_check obj =
     (case as_string (lookup obj ''threshold'') of
        None \<Rightarrow> [MissingOrMistyped ''threshold'']
      | Some s \<Rightarrow> (case snd (formatThreshold s) of None \<Rightarrow> [] | Some e \<Rightarrow> [BadThreshold e]))"
  by (simp add: threshold_check_def as_string_def split: option.splits json.splits)

lemma terms_check_eq:
  "(case lookup obj ''terms'' of
      Some (JArray ts) \<Rightarrow> concat (map term_violations ts)
    | _ \<Rightarrow> [MissingOrMistyped ''terms'']) =
   (case as_array (lookup obj ''terms'') of
      None \<Rightarrow> [MissingOrMistyped ''terms'']
    | Some ts \<Rightarrow> concat (map term_violations ts))"
  by (simp add: as_array_def split: option.splits json.splits)

lemma report_simps:
  "report (MissingOrMistyped ''name'') = Errorf ''name field is not a string''"
  "report (MissingOrMistyped ''enabled'') = Errorf ''enabled field is not a boolean''"
  "report (MissingOrMistyped ''terms'') = Errorf ''terms field not found or has incorrect type''"
  "report (MissingOrMistyped ''duration'') = Errorf ''duration field is not a string''"
  "report (MissingOrMistyped ''operator'') = Errorf ''operator field is not a string''"
  "report (MissingOrMistyped ''threshold'') = Errorf ''threshold field is not a string''"
  "report (MissingOrMistyped ''time_function'') = Errorf ''time_function field is not a string''"
  "report (MissingOrMistyped ''priority'') = Errorf ''priority field is not a string''"
  "report (NotAnObject ''term'') = Errorf ''term has incorrect type''"
  "report (NotAnObject ''nrql condition'') = Errorf ''nrql condition has incorrect type''"
  "report (BadThreshold e) = e"
  by (simp_all add: report_def)

lemmas shape_simps =
  term_violations_def condition_violations_def string_check_eq bool_check_eq
  threshold_check_eq terms_check_eq as_object_def report_simps

lemma termsLoop_bad:
  assumes "term_violations t = v # vs"
  shows "termsLoop (t # ts) acc = ([], Some (report v))"
proof (cases t)
  case (JObject obj)
  show ?thesis
  proof (cases "as_string (lookup obj ''duration'')")
    case None
    then show ?thesis using assms by (auto simp: JObject shape_simps)
  next
    case d: (Some d)
    show ?thesis
    proof (cases "as_string (lookup obj ''operator'')")
      case None
      then show ?thesis using assms by (auto simp: JObject shape_simps d)
    next
      case o: (Some o')
      show ?thesis
      proof (cases "as_string (lookup obj ''threshold'')")
        case None
        then show ?thesis using assms by (auto simp: JObject shape_simps d o)
      next
        case s: (Some s)
        obtain th err where f: "formatThreshold s = (th, err)" by (cases "formatThreshold s")
        show ?thesis
        proof (cases err)
          case (Some e)
          then show ?thesis using assms by (auto simp: JObject shape_simps d o s f)
        next
          case n: None
          show ?thesis
          proof (cases "as_string (lookup obj ''time_function'')")
            case None
            then show ?thesis using assms by (auto simp: JObject shape_simps d o s f n)
          next
            case tf: (Some tf)
            show ?thesis
            proof (cases "as_string (lookup obj ''priority'')")
              case None
              then show ?thesis using assms by (auto simp: JObject shape_simps d o s f n tf)
            next
              case (Some p)
              then show ?thesis using assms by (auto simp: JObject shape_simps d o s f n tf)
            qed
          qed
        qed
      qed
    qed
  qed
qed (use assms in \<open>auto simp: shape_simps\<close>)

lemma termsLoop_good:
  assumes "term_violations t = []"
  shows "\<exists>x. termsLoop (t # ts) acc = termsLoop ts (acc @ [x])"
proof (cases t)
  case (JObject obj)
  from assms obtain d where d: "as_string (lookup obj ''duration'') = Some d"
    by (cases "as_string (lookup obj ''duration'')") (simp_all add: JObject shape_simps)
  from assms obtain o' where o: "as_string (lookup obj ''operator'') = Some o'"
    by (cases "as_string (lookup obj ''operator'')") (simp_all add: JObject shape_simps d)
  from assms obtain s where s: "as_string (lookup obj ''threshold'') = Some s"
    by (cases "as_string (lookup obj ''threshold'')") (simp_all add: JObject shape_simps d o)
  obtain th err where f: "formatThreshold s = (th, err)" by (cases "formatThreshold s")
  from assms have n: "err = None"
    by (cases err) (simp_all add: JObject shape_simps d o s f)
  from assms obtain tf where tf: "as_string (lookup obj ''time_function'') = Some tf"
    by (cases "as_string (lookup obj ''time_function'')")
       (simp_all add: JObject shape_simps d o s f n)
  from assms obtain p where p: "as_string (lookup obj ''priority'') = Some p"
    by (cases "as_string (lookup obj ''priority'')")
       (simp_all add: JObject shape_simps d o s f n tf)
  show ?thesis by (auto simp: JObject as_object_def d o s f n tf p)
qed (use assms in \<open>simp_all add: shape_simps\<close>)


lemma termsLoop_failed: "termsLoop ts acc = (r, Some e) \<Longrightarrow> r = []"
proof (induction ts arbitrary: acc)
  case Nil
  then show ?case by simp
next
  case (Cons t ts)
  show ?case
  proof (cases "term_violations t")
    case Nil
    from termsLoop_good [OF Nil] obtain x where
      "termsLoop (t # ts) acc = termsLoop ts (acc @ [x])" by blast
    with Cons show ?thesis by (simp del: termsLoop.simps)
  next
    case (Cons v vs)
    from termsLoop_bad [OF Cons] show ?thesis using Cons.prems by (simp del: termsLoop.simps)
  qed
qed














lemma writeConditions_append:
  "writeConditions w fn (xs @ ys) =
     (case writeConditions w fn xs of
        (w', Some err) \<Rightarrow> (w', Some err)
      | (w', None) \<Rightarrow> writeConditions w' fn ys)"
  by (induction xs arbitrary: w) (auto split: prod.splits option.splits)

text \<open>
  C8.  A condition whose \<open>terms\<close> list is present and empty is no error: the loop goes
  on to the next condition with a condition of no terms added (so a response of that
  condition alone is fetched as that one condition), and writing a list with such a
  condition does what writing the list without it does: it adds no row.
\<close>

theorem empty_terms_condition:
  assumes "lookup obj ''name'' = Some (JString n)"
      and "lookup obj ''enabled'' = Some (JBool b)"
      and "lookup obj ''terms'' = Some (JArray [])"
  shows "conditionsLoop (JObject obj # rest) acc =
           conditionsLoop rest (acc @ [\<lparr>Name = n, Terms = [], Enabled = b\<rparr>]) \<and>
         conditionsLoop [JObject obj] [] = ([\<lparr>Name = n, Terms = [], Enabled = b\<rparr>], None) \<and>
         SaveNRQLConditionsAsCSV w filename
           (before @ [\<lparr>Name = n, Terms = [], Enabled = b\<rparr>] @ after) =
         SaveNRQLConditionsAsCSV w filename (before @ after)"
proof -
  have step: "conditionsLoop (JObject obj # rest') acc' =
        conditionsLoop rest' (acc' @ [\<lparr>Name = n, Terms = [], Enabled = b\<rparr>])"
    for rest' acc'
    using assms by (simp add: as_object_def as_string_def as_bool_def as_array_def)
  have alone: "conditionsLoop [JObject obj] [] =
        ([\<lparr>Name = n, Terms = [], Enabled = b\<rparr>], None)"
    using step [of "[]" "[]"] by simp
  have rows: "writeConditions w' filename
           (before @ [\<lparr>Name = n, Terms = [], Enabled = b\<rparr>] @ after) =
         writeConditions w' filename (before @ after)" for w'
    by (simp add: writeConditions_append split: prod.splits option.splits)
  have save: "SaveNRQLConditionsAsCSV w filename
           (before @ [\<lparr>Name = n, Terms = [], Enabled = b\<rparr>] @ after) =
         SaveNRQLConditionsAsCSV w filename (before @ after)"
    by (simp only: SaveNRQLConditionsAsCSV_def rows)
  from step alone save show ?thesis by blast
qed

theorem empty_terms_condition_witness:
  "conditionsLoop [example_condition ''cpu'' []] [] =
     ([\<lparr>Name = ''cpu'', Terms = [], Enabled = True\<rparr>], None) \<and>
   SaveNRQLConditionsAsCSV (example_world None DoFails) ''7.csv''
     ([] @ [\<lparr>Name = ''cpu'', Terms = [], Enabled = True\<rparr>] @ []) =
   SaveNRQLConditionsAsCSV (example_world None DoFails) ''7.csv'' ([] @ [])"
proof -
  let ?obj = "[(''name'', JString ''cpu''), (''enabled'', JBool True), (''terms'', JArray [])]"
  have h1: "lookup ?obj ''name'' = Some (JString ''cpu'')" by (simp add: lookup_def)
  have h2: "lookup ?obj ''enabled'' = Some (JBool True)" by (simp add: lookup_def)
  have h3: "lookup ?obj ''terms'' = Some (JArray [])" by (simp add: lookup_def)
  from empty_terms_condition [OF h1 h2 h3, of "[]" "[]" "example_world None DoFails" "''7.csv''" "[]" "[]"]
  show ?thesis by (simp only: example_condition_def) simp
qed

section \<open>The run\<close>

text \<open>\<open>loadConfig\<close> returns a configuration or an error, so \<open>main\<close> never uses a nil one.\<close>

lemma loadConfig_never_nil: "loadConfig foldName w filename \<noteq> (None, None)"
  by (auto simp: loadConfig_def split: option.splits prod.splits)

text \<open>
  C3.  When the configuration loads and the response is a JSON object that has no list
  under \<open>nrql_conditions\<close> (no such key, or a value that is not a list), the fetch
  returns the error \<open>nrql_conditions field not found or has incorrect type\<close>, and the
  run ends after printing it: no file is created or changed.
\<close>

theorem missing_conditions_key:
  assumes "loadConfig foldName w ''config.json'' = (Some config, None)"
      and "http_get w (request_url (AlertPolicyID config)) (APIKey config) =
           Response (Document (JObject data))"
      and "\<forall>cs. lookup data ''nrql_conditions'' \<noteq> Some (JArray cs)"
  shows "fetchNRQLConditions w (APIKey config) (AlertPolicyID config) =
           ([], Some (Errorf ''nrql_conditions field not found or has incorrect type'')) \<and>
         main foldName w =
           w\<lparr>console := console w @
              [ErrorFetching (Errorf ''nrql_conditions field not found or has incorrect type'')]\<rparr> \<and>
         files (main foldName w) = files w"
proof -
  from assms(3) have "as_array (lookup data ''nrql_conditions'') = None"
    by (auto simp: as_array_def split: option.splits json.splits)
  with assms(2) have f: "fetchNRQLConditions w (APIKey config) (AlertPolicyID config) =
           ([], Some (Errorf ''nrql_conditions field not found or has incorrect type''))"
    by (simp add: fetchNRQLConditions_def decodeMap_def)
  with assms(1) show ?thesis by (simp add: main_def println_def)
qed

theorem missing_conditions_key_witness:
  "files (main id (example_world (Some (Document example_config))
                     (Response (Document (JObject [(''conditions'', JArray [])]))))) =
   files (example_world (Some (Document example_config))
            (Response (Document (JObject [(''conditions'', JArray [])])))) \<and>
   console (main id (example_world (Some (Document example_config))
                       (Response (Document (JObject [(''conditions'', JArray [])]))))) =
   [ErrorFetching (Errorf ''nrql_conditions field not found or has incorrect type'')]"
proof -
  let ?data = "[(''conditions'', JArray [])]"
  let ?w = "example_world (Some (Document example_config)) (Response (Document (JObject ?data)))"
  let ?c = "\<lparr>APIKey = ''key'', AlertPolicyID = ''42''\<rparr>"
  have h1: "loadConfig id ?w ''config.json'' = (Some ?c, None)"
    by (simp add: loadConfig_def decodeConfig_def example_world_def example_config_def
          field_for_def set_field_def)
  have h2: "http_get ?w (request_url (AlertPolicyID ?c)) (APIKey ?c) =
            Response (Document (JObject ?data))"
    by (simp add: example_world_def)
  have h3: "\<forall>cs. lookup ?data ''nrql_conditions'' \<noteq> Some (JArray cs)"
    by (simp add: lookup_def)
  from missing_conditions_key [OF h1 h2 h3] show ?thesis
    by (simp add: example_world_def)
qed

section \<open>The configuration loader\<close>

lemma strings_for_simps:
  "strings_for foldName f [] = []"
  "strings_for foldName f ((k, v) # kvs) =
     (case v of JString s \<Rightarrow> if field_for foldName k = Some f then [s] else [] | _ \<Rightarrow> []) @
     strings_for foldName f kvs"
  by (simp_all add: strings_for_def)

lemma bad_members_simps:
  "bad_members foldName [] = []"
  "bad_members foldName ((k, v) # kvs) =
     (if field_for foldName k \<noteq> None \<and> \<not> is_string v \<and> v \<noteq> JNull then [v] else []) @
     bad_members foldName kvs"
  by (simp_all add: bad_members_def)

lemma objectLoop_result:
  "objectLoop foldName kvs c saved =
     (\<lparr>APIKey = (if strings_for foldName FieldAPIKey kvs = [] then APIKey c
                  else last (strings_for foldName FieldAPIKey kvs)),
       AlertPolicyID = (if strings_for foldName FieldAlertPolicyID kvs = [] then AlertPolicyID c
                         else last (strings_for foldName FieldAlertPolicyID kvs))\<rparr>,
      case saved of
        Some e \<Rightarrow> Some e
      | None \<Rightarrow> map_option (\<lambda>v. UnmarshalTypeError (json_kind v))
                  (first_of (bad_members foldName kvs)))"
proof (induction kvs arbitrary: c saved)
  case Nil
  show ?case by (simp add: strings_for_simps bad_members_simps split: option.splits)
next
  case (Cons kv kvs)
  obtain k v where kv: "kv = (k, v)" by (cases kv)
  have "objectLoop foldName ((k, v) # kvs) c saved =
     (\<lparr>APIKey = (if strings_for foldName FieldAPIKey ((k, v) # kvs) = [] then APIKey c
                  else last (strings_for foldName FieldAPIKey ((k, v) # kvs))),
       AlertPolicyID = (if strings_for foldName FieldAlertPolicyID ((k, v) # kvs) = []
                         then AlertPolicyID c
                         else last (strings_for foldName FieldAlertPolicyID ((k, v) # kvs)))\<rparr>,
      case saved of
        Some e \<Rightarrow> Some e
      | None \<Rightarrow> map_option (\<lambda>v. UnmarshalTypeError (json_kind v))
                  (first_of (bad_members foldName ((k, v) # kvs))))"
  proof (cases "field_for foldName k")
    case None
    then show ?thesis
      by (cases saved) (simp_all add: Cons.IH strings_for_simps bad_members_simps split: json.splits)
  next
    case (Some f)
    show ?thesis
    proof (cases v)
      case (JString s)
      with Some show ?thesis
        by (cases f; cases saved)
           (simp_all add: Cons.IH strings_for_simps bad_members_simps set_field_def
              is_string_def)
    next
      case JNull
      with Some show ?thesis
        by (cases saved) (simp_all add: Cons.IH strings_for_simps bad_members_simps is_string_def)
    qed (use Some in \<open>cases saved; simp add: Cons.IH strings_for_simps bad_members_simps
           is_string_def\<close>)+
  qed
  then show ?case by (simp only: kv)
qed

text \<open>
  C4, as amended.  \<open>loadConfig\<close> fails with the error of \<open>os.Open\<close> when the file cannot
  be opened, and with a decoding error when the file does not start with a JSON value,
  when that value is neither an object nor null, or when a member matched to \<open>apiKey\<close>
  or \<open>alertPolicyID\<close> holds something other than a string or null.  In every other
  case it succeeds: a field takes the last string given for it, and the empty string
  when none is given; other members are ignored.
\<close>

theorem loadConfig_outcomes:
  "(readable w filename = None \<longrightarrow>
      loadConfig foldName w filename = (None, Some (PathError ''open'' filename))) \<and>
   (readable w filename = Some Malformed \<longrightarrow>
      loadConfig foldName w filename = (None, Some JSONSyntaxError)) \<and>
   (\<forall>v. readable w filename = Some (Document v) \<and> v \<noteq> JNull \<and> (\<forall>kvs. v \<noteq> JObject kvs) \<longrightarrow>
      loadConfig foldName w filename = (None, Some (UnmarshalTypeError (json_kind v)))) \<and>
   (readable w filename = Some (Document JNull) \<longrightarrow>
      loadConfig foldName w filename = (Some \<lparr>APIKey = [], AlertPolicyID = []\<rparr>, None)) \<and>
   (\<forall>kvs. readable w filename = Some (Document (JObject kvs)) \<longrightarrow>
      loadConfig foldName w filename =
        (case bad_members foldName kvs of
           v # _ \<Rightarrow> (None, Some (UnmarshalTypeError (json_kind v)))
         | [] \<Rightarrow>
             (Some \<lparr>APIKey = last_or_empty (strings_for foldName FieldAPIKey kvs),
                    AlertPolicyID = last_or_empty (strings_for foldName FieldAlertPolicyID kvs)\<rparr>,
              None)))"
proof -
  have a: "readable w filename = None \<longrightarrow>
      loadConfig foldName w filename = (None, Some (PathError ''open'' filename))"
    by (simp add: loadConfig_def)
  have b: "readable w filename = Some Malformed \<longrightarrow>
      loadConfig foldName w filename = (None, Some JSONSyntaxError)"
    by (simp add: loadConfig_def decodeConfig_def)
  have c: "readable w filename = Some (Document v) \<and> v \<noteq> JNull \<and> (\<forall>kvs. v \<noteq> JObject kvs) \<longrightarrow>
      loadConfig foldName w filename = (None, Some (UnmarshalTypeError (json_kind v)))" for v
    by (cases v) (simp_all add: loadConfig_def decodeConfig_def)
  have d: "readable w filename = Some (Document JNull) \<longrightarrow>
      loadConfig foldName w filename = (Some \<lparr>APIKey = [], AlertPolicyID = []\<rparr>, None)"
    by (simp add: loadConfig_def decodeConfig_def)
  have e: "readable w filename = Some (Document (JObject kvs)) \<longrightarrow>
      loadConfig foldName w filename =
        (case bad_members foldName kvs of
           v # _ \<Rightarrow> (None, Some (UnmarshalTypeError (json_kind v)))
         | [] \<Rightarrow>
             (Some \<lparr>APIKey = last_or_empty (strings_for foldName FieldAPIKey kvs),
                    AlertPolicyID = last_or_empty (strings_for foldName FieldAlertPolicyID kvs)\<rparr>,
              None))" for kvs
    by (cases "bad_members foldName kvs")
       (simp_all add: loadConfig_def decodeConfig_def Let_def objectLoop_result last_or_empty_def)
  from a b c d e show ?thesis by blast
qed

theorem loadConfig_outcomes_witness:
  "loadConfig id (example_world None DoFails) ''config.json'' =
     (None, Some (PathError ''open'' ''config.json'')) \<and>
   loadConfig id (example_world (Some Malformed) DoFails) ''config.json'' =
     (None, Some JSONSyntaxError) \<and>
   loadConfig id (example_world (Some (Document (JArray []))) DoFails) ''config.json'' =
     (None, Some (UnmarshalTypeError ''array'')) \<and>
   loadConfig id (example_world (Some (Document JNull)) DoFails) ''config.json'' =
     (Some \<lparr>APIKey = [], AlertPolicyID = []\<rparr>, None) \<and>
   loadConfig id (example_world (Some (Document example_config)) DoFails) ''config.json'' =
     (Some \<lparr>APIKey = ''key'', AlertPolicyID = ''42''\<rparr>, None) \<and>
   loadConfig id (example_world (Some (Document (JObject [(''apiKey'', JBool True)]))) DoFails)
     ''config.json'' = (None, Some (UnmarshalTypeError ''bool''))"
proof -
  note t = loadConfig_outcomes [where foldName = id and filename = "''config.json''"]
  have 1: "loadConfig id (example_world None DoFails) ''config.json'' =
     (None, Some (PathError ''open'' ''config.json''))"
    using t [of "example_world None DoFails"] by (simp add: example_world_def)
  have 2: "loadConfig id (example_world (Some Malformed) DoFails) ''config.json'' =
     (None, Some JSONSyntaxError)"
    using t [of "example_world (Some Malformed) DoFails"] by (simp add: example_world_def)
  have r3: "readable (example_world (Some (Document (JArray []))) DoFails) ''config.json'' =
            Some (Document (JArray []))" by (simp add: example_world_def)
  have 3: "loadConfig id (example_world (Some (Document (JArray []))) DoFails) ''config.json'' =
     (None, Some (UnmarshalTypeError ''array''))"
    using t [of "example_world (Some (Document (JArray []))) DoFails"] r3
    by (auto simp: json_kind_def)
  have 4: "loadConfig id (example_world (Some (Document JNull)) DoFails) ''config.json'' =
     (Some \<lparr>APIKey = [], AlertPolicyID = []\<rparr>, None)"
    using t [of "example_world (Some (Document JNull)) DoFails"] by (simp add: example_world_def)
  have r5: "readable (example_world (Some (Document example_config)) DoFails) ''config.json'' =
            Some (Document (JObject [(''apiKey'', JString ''key''),
                                     (''alertPolicyID'', JString ''42'')]))"
    by (simp add: example_world_def example_config_def)
  have 5: "loadConfig id (example_world (Some (Document example_config)) DoFails) ''config.json'' =
     (Some \<lparr>APIKey = ''key'', AlertPolicyID = ''42''\<rparr>, None)"
    using t [of "example_world (Some (Document example_config)) DoFails"] r5
    by (simp add: bad_members_def strings_for_def field_for_def is_string_def last_or_empty_def)
  have r6: "readable (example_world (Some (Document (JObject [(''apiKey'', JBool True)]))) DoFails)
              ''config.json'' = Some (Document (JObject [(''apiKey'', JBool True)]))"
    by (simp add: example_world_def)
  have 6: "loadConfig id (example_world (Some (Document (JObject [(''apiKey'', JBool True)]))) DoFails)
     ''config.json'' = (None, Some (UnmarshalTypeError ''bool''))"
    using t [of "example_world (Some (Document (JObject [(''apiKey'', JBool True)]))) DoFails"] r6
    by (simp add: bad_members_def field_for_def is_string_def json_kind_def)
  from 1 2 3 4 5 6 show ?thesis by blast
qed

text \<open>
  C4 as stated fails: the empty object \<open>{}\<close> does not have the shape of a
  configuration, and it loads as a configuration of two empty strings.
\<close>

theorem empty_object_loads:
  "loadConfig id (example_world (Some (Document (JObject []))) DoFails) ''config.json'' =
     (Some \<lparr>APIKey = [], AlertPolicyID = []\<rparr>, None)"
  by (simp add: loadConfig_def decodeConfig_def example_world_def)

end
